theory Spec2Isabelle
  imports Complex_Main "HOL-Library.AList"
begin

section \<open>Protein structure graphs: a shallow embedding of \<^verbatim>\<open>graphein/protein/graphs.py\<close>\<close>

text \<open>
  The development follows the Python module function by function.  Python values that
  live in attribute dictionaries are a small datatype, dictionaries are maps or
  association lists (when insertion order is observable), every \<^verbatim>\<open>raise\<close> and every
  failing \<^verbatim>\<open>assert\<close> is the left summand of a result, and the pandas column
  operations are list functions over the rows of the table.
\<close>

subsection \<open>Errors and attribute values\<close>

datatype error =
    AssertionError string
  | ProteinGraphConfigurationError string
  | KeyError string
  | TypeError
  | AttributeError
  | IndexError
  | CollaboratorError string

text \<open>
  A Python set of edge-kind labels is a list without repetitions: \<^verbatim>\<open>len\<close> is its
  length, iteration runs over it once, \<^verbatim>\<open>update\<close> appends the labels that are new.
\<close>

datatype pyval =
    PyInt int
  | PyStr string
  | PySet "string list"
  | PyList "string list"

type_synonym attrs = "string \<rightharpoonup> pyval"

text \<open>
  A float is a real number or the missing value \<^verbatim>\<open>NaN\<close>.  Node attributes hold strings,
  integers, floats, coordinate arrays and lists of node names.
\<close>

type_synonym pyfloat = "real option"

datatype nodeval =
    NStr string
  | NInt int
  | NFloat pyfloat
  | NArray "pyfloat list"
  | NList "string list"

type_synonym nattrs = "string \<rightharpoonup> nodeval"

subsection \<open>Run-length numbering: \<^verbatim>\<open>number_groups_of_runs\<close>\<close>

text \<open>
  \<^verbatim>\<open>
  df = pd.DataFrame({"val": list_of_values})
  df["idx"] = df["val"].shift() != df["val"]
  df["sum"] = df.groupby("val")["idx"].cumsum()
  return list(df["val"].astype(str) + df["sum"].astype(str))
  \<close>
  \<^verbatim>\<open>shift\<close> moves the column down by one row and leaves the first row missing; a missing
  value differs from every label.  The grouped cumulative sum gives row \<open>i\<close> the number
  of rows up to and including \<open>i\<close> that carry the label of row \<open>i\<close> and have \<^verbatim>\<open>idx\<close> set.
  \<^verbatim>\<open>astype(str)\<close> on the sums is the decimal numeral.
\<close>

definition digit_char :: "nat \<Rightarrow> char" where
  "digit_char d = ''0123456789'' ! d"

fun str_of_nat :: "nat \<Rightarrow> string" where
  "str_of_nat n =
     (if n < 10 then [digit_char n] else str_of_nat (n div 10) @ [digit_char (n mod 10)])"

declare str_of_nat.simps [simp del]

definition shift :: "'a list \<Rightarrow> 'a option list" where
  "shift xs = (if xs = [] then [] else None # map Some (butlast xs))"

definition ne_shift :: "'a list \<Rightarrow> bool list" where
  "ne_shift xs = map2 (\<lambda>p v. p \<noteq> Some v) (shift xs) xs"

definition groupby_cumsum :: "'a list \<Rightarrow> bool list \<Rightarrow> nat list" where
  "groupby_cumsum keys idx =
     map (\<lambda>i. length (filter (\<lambda>(k, b). k = keys ! i \<and> b) (take (Suc i) (zip keys idx))))
       [0..<length keys]"

definition number_groups_of_runs :: "string list \<Rightarrow> string list" where
  "number_groups_of_runs list_of_values =
     (let idx = ne_shift list_of_values;
          sum = groupby_cumsum list_of_values idx
      in map2 (\<lambda>v s. v @ str_of_nat s) list_of_values sum)"

text \<open>
  The specification's wording, as a walk over the list: one occurrence counter per label,
  the label of the preceding element, and a counter that goes up by one exactly when the
  label differs from the preceding one (the first element has no predecessor).
\<close>

fun segment_walk :: "(string \<Rightarrow> nat) \<Rightarrow> string option \<Rightarrow> string list \<Rightarrow> string list" where
  "segment_walk cnt prev [] = []"
| "segment_walk cnt prev (x # xs) =
     (let cnt' = (if prev = Some x then cnt else cnt(x := cnt x + 1))
      in (x @ str_of_nat (cnt' x)) # segment_walk cnt' (Some x) xs)"

text \<open>Auxiliary notions for the proof: the \<^verbatim>\<open>idx\<close> column computed left to right, the last
  label of a prefix, and the number of runs of a label inside a prefix.\<close>

fun run_starts :: "'a option \<Rightarrow> 'a list \<Rightarrow> bool list" where
  "run_starts p [] = []"
| "run_starts p (x # xs) = (p \<noteq> Some x) # run_starts (Some x) xs"

definition last_opt :: "'a list \<Rightarrow> 'a option" where
  "last_opt xs = (if xs = [] then None else Some (last xs))"

definition runs_count :: "'a list \<Rightarrow> 'a \<Rightarrow> nat" where
  "runs_count ps l = length (filter (\<lambda>(k, b). k = l \<and> b) (zip ps (ne_shift ps)))"

subsection \<open>Record tables\<close>

text \<open>
  A record table is the list of its rows, in table order, with the columns the module
  reads.  \<^verbatim>\<open>PandasPdb\<close> holds one table of standard records and one of heteroatom records.
\<close>

record atom_row =
  atom_name :: string
  alt_loc :: string
  residue_name :: string
  chain_id :: string
  residue_number :: int
  insertion :: string
  x_coord :: pyfloat
  y_coord :: pyfloat
  z_coord :: pyfloat
  b_factor :: pyfloat
  element_symbol :: string
  node_id :: string

type_synonym table = "atom_row list"

record pandas_pdb =
  ATOM :: table
  HETATM :: table

definition str_of_int :: "int \<Rightarrow> string" where
  "str_of_int i = (if i < 0 then ''-'' @ str_of_nat (nat (- i)) else str_of_nat (nat i))"

text \<open>\<^verbatim>\<open>Series.unique()\<close>: the distinct values in order of first appearance.\<close>

fun unique :: "'a list \<Rightarrow> 'a list" where
  "unique [] = []"
| "unique (x # xs) = x # filter (\<lambda>y. y \<noteq> x) (unique xs)"

text \<open>Modelled from the spec: \<^verbatim>\<open>filter_dataframe\<close> of \<^verbatim>\<open>graphein.protein.utils\<close> is not part
  of the sources at hand.  It keeps (\<^verbatim>\<open>boolean=True\<close>) or drops (\<^verbatim>\<open>boolean=False\<close>)
  the rows whose value in the given column is one of the listed values.\<close>

definition filter_dataframe :: "table \<Rightarrow> (atom_row \<Rightarrow> string) \<Rightarrow> string list \<Rightarrow> bool \<Rightarrow> table" where
  "filter_dataframe df by_column list_of_values boolean =
     filter (\<lambda>r. (by_column r \<in> set list_of_values) = boolean) df"

definition deprotonate_structure :: "table \<Rightarrow> table" where
  "deprotonate_structure df = filter_dataframe df atom_name [''H''] False"

definition subset_structure_to_atom_type :: "table \<Rightarrow> string \<Rightarrow> table" where
  "subset_structure_to_atom_type df granularity = filter_dataframe df atom_name [granularity] True"

text \<open>
  \<^verbatim>\<open>calculate_centroid_positions\<close>:
  \<^verbatim>\<open>atoms.groupby("residue_number").mean()[["x_coord", "y_coord", "z_coord"]].reset_index()\<close>.
  The groups are the distinct residue numbers in ascending order; the mean of a column
  skips missing values and is missing when nothing is left.
\<close>

definition nanmean :: "pyfloat list \<Rightarrow> pyfloat" where
  "nanmean xs =
     (let ys = List.map_filter (\<lambda>x. x) xs
      in if ys = [] then None else Some (sum_list ys / real (length ys)))"

definition group_keys :: "int list \<Rightarrow> int list" where
  "group_keys ks = sort (remdups ks)"

type_synonym centroid = "int \<times> pyfloat \<times> pyfloat \<times> pyfloat"

definition calculate_centroid_positions :: "table \<Rightarrow> centroid list" where
  "calculate_centroid_positions atoms =
     map (\<lambda>k. let grp = filter (\<lambda>r. residue_number r = k) atoms
              in (k, nanmean (map x_coord grp), nanmean (map y_coord grp), nanmean (map z_coord grp)))
       (group_keys (map residue_number atoms))"

text \<open>
  \<^verbatim>\<open>convert_structure_to_centroids\<close>:
  \<^verbatim>\<open>
  centroids = calculate_centroid_positions(df)
  df = df.loc[df["atom_name"] == "CA"].reset_index(drop=True)
  df["x_coord"] = centroids["x_coord"]
  df["y_coord"] = centroids["y_coord"]
  df["z_coord"] = centroids["z_coord"]
  \<close>
  Both tables are numbered from zero, and the column assignment aligns on that number:
  row \<open>i\<close> of the \<^verbatim>\<open>CA\<close> rows gets row \<open>i\<close> of the centroids, and a missing value
  when the centroids have run out.
\<close>

fun assign_centroids :: "table \<Rightarrow> centroid list \<Rightarrow> table" where
  "assign_centroids [] cs = []"
| "assign_centroids (r # rs) [] =
     r\<lparr>x_coord := None, y_coord := None, z_coord := None\<rparr> # assign_centroids rs []"
| "assign_centroids (r # rs) ((k, cx, cy, cz) # cs) =
     r\<lparr>x_coord := cx, y_coord := cy, z_coord := cz\<rparr> # assign_centroids rs cs"

definition convert_structure_to_centroids :: "table \<Rightarrow> table" where
  "convert_structure_to_centroids df =
     (let centroids = calculate_centroid_positions df;
          ca = filter (\<lambda>r. atom_name r = ''CA'') df
      in assign_centroids ca centroids)"

text \<open>
  \<^verbatim>\<open>remove_insertions\<close> with its default \<^verbatim>\<open>keep="first"\<close>: rows whose chain, residue
  number and atom name occurred in an earlier row are dropped; then rows with an
  insertion code; then rows whose alternate location is neither empty nor \<^verbatim>\<open>A\<close>.
\<close>

fun duplicated :: "'k list \<Rightarrow> 'k list \<Rightarrow> bool list" where
  "duplicated seen [] = []"
| "duplicated seen (k # ks) = (k \<in> set seen) # duplicated (k # seen) ks"

definition remove_insertions :: "table \<Rightarrow> table" where
  "remove_insertions df =
     (let duplicates = duplicated [] (map (\<lambda>r. (chain_id r, residue_number r, atom_name r)) df);
          df1 = map fst (filter (\<lambda>(r, dup). \<not> dup) (zip df duplicates));
          df2 = filter_dataframe df1 insertion [''''] True
      in filter_dataframe df2 alt_loc ['''', ''A''] True)"

definition select_chains :: "table \<Rightarrow> string \<Rightarrow> table" where
  "select_chains protein_df chain_selection =
     (if chain_selection \<noteq> ''all''
      then filter_dataframe protein_df chain_id (map (\<lambda>c. [c]) chain_selection) True
      else protein_df)"

text \<open>
  \<^verbatim>\<open>process_dataframe\<close> as \<^verbatim>\<open>construct_graph\<close> calls it: no processing functions, with
  deprotonation, no heteroatoms to keep.
  \<^verbatim>\<open>
  atoms = protein_df.df["ATOM"]
  atoms = deprotonate_structure(atoms)
  if granularity == "atom": pass
  elif granularity == "centroids": atoms = convert_structure_to_centroids(atoms)
  else: atoms = subset_structure_to_atom_type(atoms, granularity)
  protein_df = atoms
  if not insertions: protein_df = remove_insertions(protein_df)
  protein_df = select_chains(protein_df, chain_selection=chain_selection, verbose=verbose)
  \<close>
\<close>

definition process_dataframe :: "pandas_pdb \<Rightarrow> string \<Rightarrow> string \<Rightarrow> bool \<Rightarrow> table" where
  "process_dataframe protein_df granularity chain_selection insertions =
     (let atoms = deprotonate_structure (ATOM protein_df);
          atoms = (if granularity = ''atom'' then atoms
                   else if granularity = ''centroids'' then convert_structure_to_centroids atoms
                   else subset_structure_to_atom_type atoms granularity);
          protein_df = (if \<not> insertions then remove_insertions atoms else atoms)
      in select_chains protein_df chain_selection)"

subsection \<open>Graphs of the networkx library\<close>

text \<open>
  A graph object has a graph-level metadata dictionary, a node dictionary (node to
  attribute dictionary, in insertion order) and edges.  The edges are kept as the list
  that \<^verbatim>\<open>edges(data=True)\<close> iterates over: two end points and the data dictionary.
  An undirected simple graph (\<^verbatim>\<open>nx.Graph\<close>) finds an edge under either orientation of
  its end points and \<^verbatim>\<open>add_edge\<close> merges into an existing edge; a multigraph
  (\<^verbatim>\<open>nx.MultiGraph\<close>) appends a new parallel edge on every \<^verbatim>\<open>add_edge\<close>.
\<close>

type_synonym node = string

type_synonym edge = "node \<times> node \<times> attrs"

record 'm nxgraph =
  graph :: 'm
  nodes :: "(node \<times> nattrs) list"
  edges :: "edge list"

definition same_pair :: "node \<Rightarrow> node \<Rightarrow> node \<Rightarrow> node \<Rightarrow> bool" where
  "same_pair u v a b = (a = u \<and> b = v \<or> a = v \<and> b = u)"

definition joins :: "node \<Rightarrow> node \<Rightarrow> edge \<Rightarrow> bool" where
  "joins u v e = same_pair u v (fst e) (fst (snd e))"

definition edge_data :: "edge \<Rightarrow> attrs" where
  "edge_data e = snd (snd e)"

text \<open>\<^verbatim>\<open>H[u][v]\<close>: the data dictionary of the edge between \<open>u\<close> and \<open>v\<close>, if there is one;
  \<^verbatim>\<open>H.has_edge(u, v)\<close> holds when it is there.\<close>

definition edge_lookup :: "edge list \<Rightarrow> node \<Rightarrow> node \<Rightarrow> attrs option" where
  "edge_lookup es u v = map_option edge_data (find (joins u v) es)"

text \<open>Writing into \<^verbatim>\<open>H[u][v]\<close> changes the one dictionary that both orientations share.\<close>

definition edge_update :: "edge list \<Rightarrow> node \<Rightarrow> node \<Rightarrow> attrs \<Rightarrow> edge list" where
  "edge_update es u v a = map (\<lambda>e. if joins u v e then (fst e, fst (snd e), a) else e) es"

text \<open>\<^verbatim>\<open>add_node\<close>: a new node gets an empty dictionary, then the attributes are merged in.\<close>

definition add_node :: "(node \<times> nattrs) list \<Rightarrow> node \<Rightarrow> nattrs \<Rightarrow> (node \<times> nattrs) list" where
  "add_node ns n attr =
     (case map_of ns n of
        None \<Rightarrow> ns @ [(n, attr)]
      | Some old \<Rightarrow> map (\<lambda>(m, a). if m = n then (m, a ++ attr) else (m, a)) ns)"

definition add_nodes_from :: "(node \<times> nattrs) list \<Rightarrow> (node \<times> nattrs) list \<Rightarrow> (node \<times> nattrs) list" where
  "add_nodes_from ns new = fold (\<lambda>(n, d) acc. add_node acc n d) new ns"

text \<open>\<^verbatim>\<open>nx.Graph.add_edge(u, v, **attr)\<close>: missing end points become nodes; the attributes
  are merged into the dictionary of the edge, which is created when the edge is new.\<close>

definition graph_add_edge :: "'m nxgraph \<Rightarrow> node \<Rightarrow> node \<Rightarrow> attrs \<Rightarrow> 'm nxgraph" where
  "graph_add_edge H u v attr =
     (let ns = add_node (add_node (nodes H) u Map.empty) v Map.empty
      in case edge_lookup (edges H) u v of
           None \<Rightarrow> H\<lparr>nodes := ns, edges := edges H @ [(u, v, attr)]\<rparr>
         | Some a \<Rightarrow> H\<lparr>nodes := ns, edges := edge_update (edges H) u v (a ++ attr)\<rparr>)"

text \<open>\<^verbatim>\<open>nx.MultiGraph.add_edge(u, v, **attr)\<close>: always a new parallel edge.\<close>

definition multigraph_add_edge :: "'m nxgraph \<Rightarrow> node \<Rightarrow> node \<Rightarrow> attrs \<Rightarrow> 'm nxgraph" where
  "multigraph_add_edge h u v attr =
     h\<lparr>nodes := add_node (add_node (nodes h) u Map.empty) v Map.empty,
       edges := edges h @ [(u, v, attr)]\<rparr>"

subsection \<open>Python built-ins on attribute values\<close>

text \<open>\<^verbatim>\<open>len(x)\<close> and \<^verbatim>\<open>list(x)\<close>: an integer has neither; a string is the sequence of its
  characters.\<close>

fun py_len :: "pyval \<Rightarrow> error + nat" where
  "py_len (PyInt n) = Inl TypeError"
| "py_len (PyStr s) = Inr (length s)"
| "py_len (PySet ks) = Inr (length ks)"
| "py_len (PyList ks) = Inr (length ks)"

fun py_list :: "pyval \<Rightarrow> error + string list" where
  "py_list (PyInt n) = Inl TypeError"
| "py_list (PyStr s) = Inr (map (\<lambda>c. [c]) s)"
| "py_list (PySet ks) = Inr ks"
| "py_list (PyList ks) = Inr ks"

text \<open>\<^verbatim>\<open>s.update(items)\<close> on a set: each item that is not yet a member is added.\<close>

definition set_update :: "string list \<Rightarrow> string list \<Rightarrow> string list" where
  "set_update s items = fold (\<lambda>k acc. if k \<in> set acc then acc else acc @ [k]) items s"

subsection \<open>Graph-level metadata, configuration and collaborators\<close>

text \<open>
  The metadata dictionary \<^verbatim>\<open>G.graph\<close> has the keys the module writes; the entries
  \<^verbatim>\<open>sequence_<chain>\<close> are kept as their own dictionary from chain to sequence.  The
  configuration object stored under \<^verbatim>\<open>config\<close> is represented by its scalar settings,
  which are all the module reads back from the graph.
\<close>

record settings =
  granularity :: string
  insertions :: bool

record gmeta =
  name :: "string option"
  pdb_code :: "string option"
  pdb_path :: "string option"
  chain_ids :: "string list"
  pdb_df :: table
  raw_pdb_df :: table
  rgroup_df :: table
  coords :: "pyfloat list list"
  node_type :: string
  sequences :: "(string \<times> string) list"
  config :: "settings option"
  dist_mat :: "pyfloat list list option"
  atomic_dist_mat :: "pyfloat list list option"

type_synonym pgraph = "gmeta nxgraph"

text \<open>
  A pluggable function takes the graph and returns it changed, or fails; its failures,
  like those of every collaborator outside the module, are opaque messages.
  \<^verbatim>\<open>ProteinGraphConfig\<close> holds the settings and the optional function lists.
\<close>

type_synonym plugin = "pgraph \<Rightarrow> string + pgraph"

record protein_graph_config = settings +
  protein_df_processing_functions :: "(table \<Rightarrow> string + table) list option"
  edge_construction_functions :: "plugin list option"
  node_metadata_functions :: "plugin list option"
  graph_metadata_functions :: "plugin list option"
  edge_metadata_functions :: "plugin list option"

text \<open>
  The collaborators: reading a structure from a path or fetching it by accession
  (\<^verbatim>\<open>PandasPdb\<close>), the residue-name mapping \<^verbatim>\<open>three_to_one_with_mods\<close>, the name of a file,
  the side-chain table, the distance matrix, the default configuration
  \<^verbatim>\<open>ProteinGraphConfig()\<close>, and writing a graph to a file (\<^verbatim>\<open>nx.write_gpickle\<close>, which
  returns nothing or fails).
\<close>

record env =
  read_pdb :: "string \<Rightarrow> string + pandas_pdb"
  fetch_pdb :: "string option \<Rightarrow> string + pandas_pdb"
  three_to_one_with_mods :: "string \<Rightarrow> string + string"
  get_protein_name_from_filename :: "string \<Rightarrow> string"
  compute_rgroup_dataframe :: "table \<Rightarrow> table"
  compute_distmat :: "table \<Rightarrow> pyfloat list list"
  default_config :: protein_graph_config
  write_gpickle :: "pgraph \<Rightarrow> string \<Rightarrow> string option"

subsection \<open>Reading a structure: \<^verbatim>\<open>read_pdb_to_dataframe\<close>\<close>

text \<open>
  The truth value of an optional string: \<^verbatim>\<open>None\<close> and the empty string are false.
  The assertion shared by \<^verbatim>\<open>read_pdb_to_dataframe\<close>, \<^verbatim>\<open>initialise_graph_with_metadata\<close>
  and \<^verbatim>\<open>construct_graph\<close>:
  \<^verbatim>\<open>assert (pdb_code and not pdb_path) or (not pdb_code and pdb_path)\<close>.
\<close>

definition truthy :: "string option \<Rightarrow> bool" where
  "truthy s = (case s of None \<Rightarrow> False | Some x \<Rightarrow> x \<noteq> [])"

definition exactly_one_source :: "string option \<Rightarrow> string option \<Rightarrow> bool" where
  "exactly_one_source pdb_code' pdb_path' =
     ((truthy pdb_code' \<and> \<not> truthy pdb_path') \<or> (\<not> truthy pdb_code' \<and> truthy pdb_path'))"

definition read_message :: string where
  "read_message =
     ''Either a PDB ID or a path to a local PDB file must be specified to read a PDB''"

definition construct_message :: string where
  "construct_message =
     ''Either a PDB ID or a path to a local PDB file must be specified to construct a graph''"

definition assign_node_id :: "string \<Rightarrow> atom_row \<Rightarrow> atom_row" where
  "assign_node_id granularity' r =
     (let base = chain_id r @ '':'' @ residue_name r @ '':'' @ str_of_int (residue_number r)
      in r\<lparr>node_id := (if granularity' = ''atom'' then base @ '':'' @ atom_name r else base)\<rparr>)"

text \<open>
  \<^verbatim>\<open>
  assert (pdb_code and not pdb_path) or (not pdb_code and pdb_path), "..."
  atomic_df = (PandasPdb().read_pdb(pdb_path) if pdb_path is not None
               else PandasPdb().fetch_pdb(pdb_code))
  atomic_df.df["ATOM"]["node_id"] = chain_id + ":" + residue_name + ":" + residue_number
  if granularity == "atom":
      atomic_df.df["ATOM"]["node_id"] = atomic_df.df["ATOM"]["node_id"] + ":" + atom_name
  return atomic_df
  \<close>
\<close>

definition read_pdb_to_dataframe ::
  "env \<Rightarrow> string option \<Rightarrow> string option \<Rightarrow> string \<Rightarrow> error + pandas_pdb" where
  "read_pdb_to_dataframe ev pdb_path' pdb_code' granularity' =
     (if \<not> exactly_one_source pdb_code' pdb_path' then Inl (AssertionError read_message)
      else case (case pdb_path' of Some p \<Rightarrow> read_pdb ev p | None \<Rightarrow> fetch_pdb ev pdb_code') of
             Inl msg \<Rightarrow> Inl (CollaboratorError msg)
           | Inr atomic_df \<Rightarrow>
               Inr (atomic_df\<lparr>ATOM := map (assign_node_id granularity') (ATOM atomic_df)\<rparr>))"

subsection \<open>Assembling the graph: \<^verbatim>\<open>initialise_graph_with_metadata\<close>, \<^verbatim>\<open>add_nodes_to_graph\<close>\<close>

text \<open>
  The sequence of a chain:
  \<^verbatim>\<open>protein_df.loc[protein_df["chain_id"] == c]["residue_name"].apply(three_to_one_with_mods).str.cat()\<close>,
  one letter code per row of the chain, in table order; the first residue name the
  mapping rejects raises.
\<close>

fun apply_str_cat :: "(string \<Rightarrow> string + string) \<Rightarrow> string list \<Rightarrow> error + string" where
  "apply_str_cat f [] = Inr []"
| "apply_str_cat f (x # xs) =
     (case f x of
        Inl msg \<Rightarrow> Inl (CollaboratorError msg)
      | Inr s \<Rightarrow> (case apply_str_cat f xs of Inl e \<Rightarrow> Inl e | Inr t \<Rightarrow> Inr (s @ t)))"

definition chain_sequence :: "env \<Rightarrow> table \<Rightarrow> string \<Rightarrow> error + string" where
  "chain_sequence ev protein_df c =
     apply_str_cat (three_to_one_with_mods ev)
       (map residue_name (filter (\<lambda>r. chain_id r = c) protein_df))"

fun add_sequences :: "env \<Rightarrow> table \<Rightarrow> string list \<Rightarrow> (string \<times> string) list \<Rightarrow> error + (string \<times> string) list" where
  "add_sequences ev protein_df [] acc = Inr acc"
| "add_sequences ev protein_df (c # cs) acc =
     (case chain_sequence ev protein_df c of
        Inl e \<Rightarrow> Inl e
      | Inr s \<Rightarrow> add_sequences ev protein_df cs (AList.update c s acc))"

text \<open>
  \<^verbatim>\<open>
  assert (pdb_code and not pdb_path) or (not pdb_code and pdb_path), "..."
  if not name:
      if pdb_path: name = get_protein_name_from_filename(pdb_path)
      else: name = pdb_code
  G = nx.Graph(name=name, pdb_code=pdb_code, pdb_path=pdb_path,
      chain_ids=list(protein_df["chain_id"].unique()), pdb_df=protein_df,
      raw_pdb_df=raw_pdb_df,
      rgroup_df=compute_rgroup_dataframe(remove_insertions(raw_pdb_df)),
      coords=np.asarray(protein_df[["x_coord", "y_coord", "z_coord"]]))
  G.graph["node_type"] = granularity
  for c in G.graph["chain_ids"]:
      G.graph[f"sequence_{c}"] = (...)
  return G
  \<close>
\<close>

definition row_coords :: "atom_row \<Rightarrow> pyfloat list" where
  "row_coords r = [x_coord r, y_coord r, z_coord r]"

definition initialise_graph_with_metadata ::
  "env \<Rightarrow> table \<Rightarrow> table \<Rightarrow> string \<Rightarrow> string option \<Rightarrow> string option \<Rightarrow> string option
     \<Rightarrow> error + pgraph" where
  "initialise_graph_with_metadata ev protein_df raw_pdb_df' granularity' name' pdb_code' pdb_path' =
     (if \<not> exactly_one_source pdb_code' pdb_path' then Inl (AssertionError read_message)
      else
        let nm = (if truthy name' then name'
                  else if truthy pdb_path'
                       then map_option (get_protein_name_from_filename ev) pdb_path'
                       else pdb_code');
            cs = unique (map chain_id protein_df)
        in case add_sequences ev protein_df cs [] of
             Inl e \<Rightarrow> Inl e
           | Inr seqs \<Rightarrow>
               Inr \<lparr>graph =
                      \<lparr>name = nm, pdb_code = pdb_code', pdb_path = pdb_path', chain_ids = cs,
                       pdb_df = protein_df, raw_pdb_df = raw_pdb_df',
                       rgroup_df = compute_rgroup_dataframe ev (remove_insertions raw_pdb_df'),
                       coords = map row_coords protein_df, node_type = granularity',
                       sequences = seqs, config = None, dist_mat = None,
                       atomic_dist_mat = None\<rparr>,
                    nodes = [], edges = []\<rparr>)"

text \<open>
  \<^verbatim>\<open>add_nodes_to_graph\<close> on the table stored in the graph: every node id becomes a node,
  and each call of \<^verbatim>\<open>nx.set_node_attributes(G, dict(zip(nodes, column)), key)\<close> gives a
  node the value of the last row that carries its node id.
\<close>

definition set_node_attributes ::
  "(node \<times> nattrs) list \<Rightarrow> table \<Rightarrow> (atom_row \<Rightarrow> nodeval) \<Rightarrow> string \<Rightarrow> (node \<times> nattrs) list" where
  "set_node_attributes ns df column key =
     fold (\<lambda>r acc. map (\<lambda>(n, d). if n = node_id r then (n, d(key \<mapsto> column r)) else (n, d)) acc)
       df ns"

definition add_nodes_to_graph :: "pgraph \<Rightarrow> pgraph" where
  "add_nodes_to_graph G =
     (let protein_df = pdb_df (graph G);
          ns = add_nodes_from (nodes G) (map (\<lambda>r. (node_id r, Map.empty)) protein_df);
          ns = set_node_attributes ns protein_df (\<lambda>r. NStr (chain_id r)) ''chain_id'';
          ns = set_node_attributes ns protein_df (\<lambda>r. NStr (residue_name r)) ''residue_name'';
          ns = set_node_attributes ns protein_df (\<lambda>r. NInt (residue_number r)) ''residue_number'';
          ns = set_node_attributes ns protein_df (\<lambda>r. NStr (atom_name r)) ''atom_type'';
          ns = set_node_attributes ns protein_df (\<lambda>r. NStr (element_symbol r)) ''element_symbol'';
          ns = set_node_attributes ns protein_df (\<lambda>r. NArray (row_coords r)) ''coords'';
          ns = set_node_attributes ns protein_df (\<lambda>r. NFloat (b_factor r)) ''b_factor''
      in G\<lparr>nodes := ns\<rparr>)"

subsection \<open>Edges and annotations: \<^verbatim>\<open>compute_edges\<close>\<close>

text \<open>Running a list of pluggable functions in list order, each on the result of the one
  before; the first failure stops the run.\<close>

fun run_plugins :: "plugin list \<Rightarrow> pgraph \<Rightarrow> error + pgraph" where
  "run_plugins [] G = Inr G"
| "run_plugins (f # fs) G =
     (case f G of
        Inl msg \<Rightarrow> Inl (CollaboratorError msg)
      | Inr G' \<Rightarrow> run_plugins fs G')"

text \<open>
  \<^verbatim>\<open>
  if "config" in G.graph:
      if G.graph["config"].granularity == "atom":
          G.graph["atomic_dist_mat"] = compute_distmat(G.graph["raw_pdb_df"])
      else:
          G.graph["dist_mat"] = compute_distmat(G.graph["pdb_df"])
  for func in funcs:
      func(G)
  return G
  \<close>
  Iterating over a missing list (\<^verbatim>\<open>None\<close>) is a type error.
\<close>

definition compute_edges :: "env \<Rightarrow> pgraph \<Rightarrow> plugin list option \<Rightarrow> error + pgraph" where
  "compute_edges ev G funcs =
     (let m = graph G;
          m = (case config m of
                 None \<Rightarrow> m
               | Some c \<Rightarrow>
                   if granularity c = ''atom''
                   then m\<lparr>atomic_dist_mat := Some (compute_distmat ev (raw_pdb_df m))\<rparr>
                   else m\<lparr>dist_mat := Some (compute_distmat ev (pdb_df m))\<rparr>);
          G = G\<lparr>graph := m\<rparr>
      in case funcs of
           None \<Rightarrow> Inl TypeError
         | Some fs \<Rightarrow> run_plugins fs G)"

text \<open>Modelled from the spec: \<^verbatim>\<open>annotate_node_metadata\<close>, \<^verbatim>\<open>annotate_graph_metadata\<close> and
  \<^verbatim>\<open>annotate_edge_metadata\<close> of \<^verbatim>\<open>graphein.utils.utils\<close> are not part of the sources at
  hand.  Each invokes an ordered list of metadata functions against the graph.\<close>

definition annotate_metadata :: "pgraph \<Rightarrow> plugin list \<Rightarrow> error + pgraph" where
  "annotate_metadata G funcs = run_plugins funcs G"

subsection \<open>Single-item construction: \<^verbatim>\<open>construct_graph\<close>\<close>

text \<open>
  \<^verbatim>\<open>
  assert (pdb_code and not pdb_path) or (not pdb_code and pdb_path), "..."
  if config is None: config = ProteinGraphConfig()
  config.protein_df_processing_functions = (df_processing_funcs
      if config.protein_df_processing_functions is None
      else config.protein_df_processing_functions)
  ... (the same for the edge construction, node, graph and edge metadata functions)
  raw_df = read_pdb_to_dataframe(pdb_path, pdb_code, verbose=config.verbose,
                                 granularity=config.granularity)
  protein_df = process_dataframe(raw_df, chain_selection=chain_selection,
      granularity=config.granularity, insertions=config.insertions)
  g = initialise_graph_with_metadata(protein_df=protein_df, raw_pdb_df=raw_df.df["ATOM"],
      name=name, pdb_code=pdb_code, pdb_path=pdb_path, granularity=config.granularity)
  g = add_nodes_to_graph(g)
  g.graph["config"] = config
  if config.node_metadata_functions is not None:
      g = annotate_node_metadata(g, config.node_metadata_functions)
  g = compute_edges(g, funcs=config.edge_construction_functions, get_contacts_config=None)
  if config.graph_metadata_functions is not None:
      g = annotate_graph_metadata(g, config.graph_metadata_functions)
  if config.edge_metadata_functions is not None:
      g = annotate_edge_metadata(g, config.edge_metadata_functions)
  return g
  \<close>
\<close>

definition or_else :: "'a option \<Rightarrow> 'a option \<Rightarrow> 'a option" where
  "or_else own given = (case own of None \<Rightarrow> given | Some x \<Rightarrow> Some x)"

definition override_config ::
  "protein_graph_config \<Rightarrow> (table \<Rightarrow> string + table) list option \<Rightarrow> plugin list option
     \<Rightarrow> plugin list option \<Rightarrow> plugin list option \<Rightarrow> plugin list option \<Rightarrow> protein_graph_config" where
  "override_config c df_processing_funcs edge_construction_funcs edge_annotation_funcs
       node_annotation_funcs graph_annotation_funcs =
     c\<lparr>protein_df_processing_functions :=
          or_else (protein_df_processing_functions c) df_processing_funcs,
       edge_construction_functions := or_else (edge_construction_functions c) edge_construction_funcs,
       node_metadata_functions := or_else (node_metadata_functions c) node_annotation_funcs,
       graph_metadata_functions := or_else (graph_metadata_functions c) graph_annotation_funcs,
       edge_metadata_functions := or_else (edge_metadata_functions c) edge_annotation_funcs\<rparr>"

definition annotate_if_given :: "plugin list option \<Rightarrow> pgraph \<Rightarrow> error + pgraph" where
  "annotate_if_given funcs g = (case funcs of None \<Rightarrow> Inr g | Some fs \<Rightarrow> annotate_metadata g fs)"

definition build_graph ::
  "env \<Rightarrow> protein_graph_config \<Rightarrow> string option \<Rightarrow> string option \<Rightarrow> string option \<Rightarrow> string
     \<Rightarrow> error + pgraph" where
  "build_graph ev c name' pdb_path' pdb_code' chain_selection =
     (case read_pdb_to_dataframe ev pdb_path' pdb_code' (granularity c) of
        Inl e \<Rightarrow> Inl e
      | Inr raw_df \<Rightarrow>
     (let protein_df = process_dataframe raw_df (granularity c) chain_selection (insertions c)
      in case initialise_graph_with_metadata ev protein_df (ATOM raw_df) (granularity c)
                name' pdb_code' pdb_path' of
        Inl e \<Rightarrow> Inl e
      | Inr g \<Rightarrow>
     (let g = add_nodes_to_graph g;
          g = g\<lparr>graph := (graph g)\<lparr>config := Some (settings.truncate c)\<rparr>\<rparr>
      in case annotate_if_given (node_metadata_functions c) g of
        Inl e \<Rightarrow> Inl e
      | Inr g \<Rightarrow>
     (case compute_edges ev g (edge_construction_functions c) of
        Inl e \<Rightarrow> Inl e
      | Inr g \<Rightarrow>
     (case annotate_if_given (graph_metadata_functions c) g of
        Inl e \<Rightarrow> Inl e
      | Inr g \<Rightarrow> annotate_if_given (edge_metadata_functions c) g)))))"

definition construct_graph ::
  "env \<Rightarrow> protein_graph_config option \<Rightarrow> string option \<Rightarrow> string option \<Rightarrow> string option \<Rightarrow> string
     \<Rightarrow> (table \<Rightarrow> string + table) list option \<Rightarrow> plugin list option \<Rightarrow> plugin list option
     \<Rightarrow> plugin list option \<Rightarrow> plugin list option \<Rightarrow> error + pgraph" where
  "construct_graph ev config' name' pdb_path' pdb_code' chain_selection df_processing_funcs
       edge_construction_funcs edge_annotation_funcs node_annotation_funcs graph_annotation_funcs =
     (if \<not> exactly_one_source pdb_code' pdb_path' then Inl (AssertionError construct_message)
      else
        let c = (case config' of None \<Rightarrow> default_config ev | Some c \<Rightarrow> c);
            c = override_config c df_processing_funcs edge_construction_funcs edge_annotation_funcs
                  node_annotation_funcs graph_annotation_funcs
        in build_graph ev c name' pdb_path' pdb_code' chain_selection)"

subsection \<open>Batch construction: \<^verbatim>\<open>_mp_graph_constructor\<close>, \<^verbatim>\<open>construct_graphs_mp\<close>\<close>

text \<open>
  \<^verbatim>\<open>
  func = partial(construct_graph, config=config)
  try:
      return (func(pdb_code=args[0], chain_selection=args[1]) if use_pdb_code
              else func(pdb_path=args[0], chain_selection=args[1]))
  except Exception as ex:
      log.info(...)
      return None
  \<close>
\<close>

definition mp_graph_constructor ::
  "env \<Rightarrow> string \<times> string \<Rightarrow> bool \<Rightarrow> protein_graph_config \<Rightarrow> pgraph option" where
  "mp_graph_constructor ev args use_pdb_code c =
     (case (if use_pdb_code
            then construct_graph ev (Some c) None None (Some (fst args)) (snd args)
                   None None None None None
            else construct_graph ev (Some c) None (Some (fst args)) None (snd args)
                   None None None None None) of
        Inr g \<Rightarrow> Some g
      | Inl ex \<Rightarrow> None)"

text \<open>
  \<^verbatim>\<open>
  assert (pdb_code_it is not None or pdb_path_it is not None), "..."
  if pdb_code_it is not None:
      pdbs = pdb_code_it
      use_pdb_code = True
  if pdb_path_it is not None:
      pdbs = pdb_path_it
      use_pdb_code = False
  if chain_selections is None:
      chain_selections = ["all"] * len(pdbs)
  constructor = partial(_mp_graph_constructor, use_pdb_code=use_pdb_code, config=config)
  graphs = list(process_map(constructor,
      [(pdb, chain_selections[i]) for i, pdb in enumerate(pdbs)], max_workers=num_cores))
  if out_path is not None:
      [nx.write_gpickle(g, str(f"{out_path}/" + f"{g.graph['name']}.pickle")) for g in graphs]
  if return_dict:
      graphs = {pdb: graphs[i] for i, pdb in enumerate(pdbs)}
  return graphs
  \<close>
  \<^verbatim>\<open>process_map\<close> runs the tasks in a pool of worker processes and returns their
  results in the order of the inputs; the tasks share nothing, so the result is that of
  mapping the constructor over the list.  The pool is taken to start and to stay alive.
  Before the first of the two assignments \<^verbatim>\<open>pdbs\<close> and \<^verbatim>\<open>use_pdb_code\<close> are unbound;
  the assertion makes sure that one assignment happens, so the initial pair is never read.
\<close>

datatype batch_result =
    GraphList "pgraph option list"
  | GraphDict "(string \<times> pgraph option) list"

definition batch_message :: string where
  "batch_message = ''Iterable of pdb codes OR pdb paths required.''"

text \<open>The task list: indexing the chain selections beyond their end is an index error.\<close>

fun task_list :: "string list \<Rightarrow> string list \<Rightarrow> error + (string \<times> string) list" where
  "task_list [] sels = Inr []"
| "task_list (pdb # pdbs) [] = Inl IndexError"
| "task_list (pdb # pdbs) (sel # sels) =
     (case task_list pdbs sels of Inl e \<Rightarrow> Inl e | Inr ts \<Rightarrow> Inr ((pdb, sel) # ts))"

text \<open>The name in the file name is the \<^verbatim>\<open>str\<close> of the graph's name.\<close>

definition pickle_path :: "string \<Rightarrow> pgraph \<Rightarrow> string" where
  "pickle_path out_path g =
     out_path @ ''/'' @ (case name (graph g) of None \<Rightarrow> ''None'' | Some n \<Rightarrow> n) @ ''.pickle''"

text \<open>Writing the results, in order, up to the first failure; the value is the list of
  the paths written.  Reading \<^verbatim>\<open>g.graph\<close> of a \<^verbatim>\<open>None\<close> result is an attribute error.\<close>

fun write_graphs :: "env \<Rightarrow> string \<Rightarrow> pgraph option list \<Rightarrow> error + string list" where
  "write_graphs ev out_path [] = Inr []"
| "write_graphs ev out_path (None # gs) = Inl AttributeError"
| "write_graphs ev out_path (Some g # gs) =
     (case write_gpickle ev g (pickle_path out_path g) of
        Some msg \<Rightarrow> Inl (CollaboratorError msg)
      | None \<Rightarrow>
          (case write_graphs ev out_path gs of
             Inl e \<Rightarrow> Inl e
           | Inr ps \<Rightarrow> Inr (pickle_path out_path g # ps)))"

definition construct_graphs_mp ::
  "env \<Rightarrow> string list option \<Rightarrow> string list option \<Rightarrow> string list option
     \<Rightarrow> protein_graph_config \<Rightarrow> nat \<Rightarrow> bool \<Rightarrow> string option \<Rightarrow> error + batch_result" where
  "construct_graphs_mp ev pdb_code_it pdb_path_it chain_selections c num_cores return_dict out_path =
     (if pdb_code_it = None \<and> pdb_path_it = None then Inl (AssertionError batch_message)
      else
        let st = (case pdb_code_it of Some codes \<Rightarrow> (codes, True) | None \<Rightarrow> ([], True));
            st = (case pdb_path_it of Some paths \<Rightarrow> (paths, False) | None \<Rightarrow> st);
            pdbs = fst st;
            use_pdb_code = snd st;
            sels = (case chain_selections of
                      None \<Rightarrow> replicate (length pdbs) ''all''
                    | Some s \<Rightarrow> s)
        in case task_list pdbs sels of
             Inl e \<Rightarrow> Inl e
           | Inr tasks \<Rightarrow>
               (let graphs = map (\<lambda>args. mp_graph_constructor ev args use_pdb_code c) tasks
                in case (case out_path of
                           None \<Rightarrow> Inr []
                         | Some p \<Rightarrow> write_graphs ev p graphs) of
                     Inl e \<Rightarrow> Inl e
                   | Inr written \<Rightarrow>
                       Inr (if return_dict
                            then GraphDict (fold (\<lambda>(pdb, g) acc. AList.update pdb g acc)
                                              (zip pdbs graphs) [])
                            else GraphList graphs)))"

subsection \<open>Collapsing a multigraph: \<^verbatim>\<open>compute_weighted_graph_from_multigraph\<close>\<close>

text \<open>
  \<^verbatim>\<open>
  H = nx.Graph()
  H.graph = g.graph
  H.add_nodes_from(g.nodes(data=True))
  for u, v, d in g.edges(data=True):
      if H.has_edge(u, v):
          H[u][v]["weight"] += len(d["kind"])
          H[u][v]["kind"].update(d["kind"])
          for kind in list(d["kind"]):
              try:
                  H[u][v][kind] += 1
              except KeyError:
                  H[u][v][kind] = 1
      else:
          H.add_edge(u, v, weight=len(d["kind"]), kind=d["kind"])
          for kind in list(d["kind"]):
              H[u][v][kind] = 1
  return H
  \<close>
  The per-kind counters are entries of the edge's own dictionary, keyed by the kind label,
  next to the entries \<^verbatim>\<open>weight\<close> and \<^verbatim>\<open>kind\<close>.  Each edge of the multigraph is taken to
  own its kind set: the set a new edge of \<open>H\<close> starts from is not the set of an edge that
  the loop visits later.
\<close>

text \<open>The inner loop of the branch for an existing edge.\<close>

fun bump_kinds :: "string list \<Rightarrow> attrs \<Rightarrow> error + attrs" where
  "bump_kinds [] a = Inr a"
| "bump_kinds (k # ks) a =
     (case a k of
        None \<Rightarrow> bump_kinds ks (a(k \<mapsto> PyInt 1))
      | Some (PyInt n) \<Rightarrow> bump_kinds ks (a(k \<mapsto> PyInt (n + 1)))
      | Some _ \<Rightarrow> Inl TypeError)"

text \<open>The inner loop of the branch for a new edge.\<close>

fun init_kinds :: "string list \<Rightarrow> attrs \<Rightarrow> attrs" where
  "init_kinds [] a = a"
| "init_kinds (k # ks) a = init_kinds ks (a(k \<mapsto> PyInt 1))"

definition merge_edge :: "attrs \<Rightarrow> attrs \<Rightarrow> error + attrs" where
  "merge_edge a d =
     (case a ''weight'' of
        None \<Rightarrow> Inl (KeyError ''weight'')
      | Some w \<Rightarrow>
     (case d ''kind'' of
        None \<Rightarrow> Inl (KeyError ''kind'')
      | Some knd \<Rightarrow>
     (case py_len knd of
        Inl e \<Rightarrow> Inl e
      | Inr n \<Rightarrow>
     (case w of
        PyInt i \<Rightarrow>
          (let a1 = a(''weight'' \<mapsto> PyInt (i + int n)) in
           case a1 ''kind'' of
             None \<Rightarrow> Inl (KeyError ''kind'')
           | Some (PySet s) \<Rightarrow>
               (case py_list knd of
                  Inl e \<Rightarrow> Inl e
                | Inr ks \<Rightarrow> bump_kinds ks (a1(''kind'' \<mapsto> PySet (set_update s ks))))
           | Some _ \<Rightarrow> Inl AttributeError)
      | _ \<Rightarrow> Inl TypeError))))"

definition new_edge :: "attrs \<Rightarrow> error + attrs" where
  "new_edge d =
     (case d ''kind'' of
        None \<Rightarrow> Inl (KeyError ''kind'')
      | Some knd \<Rightarrow>
     (case py_len knd of
        Inl e \<Rightarrow> Inl e
      | Inr n \<Rightarrow>
     (case py_list knd of
        Inl e \<Rightarrow> Inl e
      | Inr ks \<Rightarrow> Inr (init_kinds ks [''weight'' \<mapsto> PyInt (int n), ''kind'' \<mapsto> knd]))))"

definition weighted_step :: "'m nxgraph \<Rightarrow> edge \<Rightarrow> error + 'm nxgraph" where
  "weighted_step H e =
     (case e of (u, v, d) \<Rightarrow>
        (case edge_lookup (edges H) u v of
           Some a \<Rightarrow>
             (case merge_edge a d of
                Inl x \<Rightarrow> Inl x
              | Inr a' \<Rightarrow> Inr (H\<lparr>edges := edge_update (edges H) u v a'\<rparr>))
         | None \<Rightarrow>
             (case new_edge d of
                Inl x \<Rightarrow> Inl x
              | Inr a' \<Rightarrow> Inr (graph_add_edge H u v a'))))"

fun weighted_loop :: "'m nxgraph \<Rightarrow> edge list \<Rightarrow> error + 'm nxgraph" where
  "weighted_loop H [] = Inr H"
| "weighted_loop H (e # es) =
     (case weighted_step H e of
        Inl x \<Rightarrow> Inl x
      | Inr H' \<Rightarrow> weighted_loop H' es)"

definition compute_weighted_graph_from_multigraph :: "'m nxgraph \<Rightarrow> error + 'm nxgraph" where
  "compute_weighted_graph_from_multigraph g =
     (let H = \<lparr>graph = graph g, nodes = add_nodes_from [] (nodes g), edges = []\<rparr>
      in weighted_loop H (edges g))"

subsection \<open>Stating the collapse law\<close>






definition well_formed :: "'m nxgraph \<Rightarrow> bool" where
  "well_formed g =
     (distinct (map fst (nodes g))
      \<and> list_all (\<lambda>e. fst e \<in> set (map fst (nodes g)) \<and> fst (snd e) \<in> set (map fst (nodes g)))
            (edges g))"



text \<open>Two multigraphs on the chains \<^verbatim>\<open>A\<close> and \<^verbatim>\<open>B\<close>, and what the collapse returns on
  them.\<close>

definition example_multigraph :: "unit nxgraph" where
  "example_multigraph =
     \<lparr>graph = (),
      nodes = [(''A'', Map.empty), (''B'', Map.empty)],
      edges = [(''A'', ''B'', [''kind'' \<mapsto> PySet [''x'', ''y'']]),
               (''B'', ''A'', [''kind'' \<mapsto> PySet [''y'']])]\<rparr>"

definition example_collapsed :: "unit nxgraph" where
  "example_collapsed =
     \<lparr>graph = (),
      nodes = [(''A'', Map.empty), (''B'', Map.empty)],
      edges = [(''A'', ''B'', [''weight'' \<mapsto> PyInt 3, ''kind'' \<mapsto> PySet [''x'', ''y''],
                 ''x'' \<mapsto> PyInt 1, ''y'' \<mapsto> PyInt 2])]\<rparr>"



subsection \<open>Stating the centroid conversion\<close>











subsection \<open>An environment and a configuration for examples\<close>

text \<open>
  An environment without any structure source: every read and every fetch fails.  A
  configuration with no edge and no metadata functions.
\<close>

definition plain_config :: protein_graph_config where
  "plain_config =
     \<lparr>granularity = ''CA'', insertions = False,
      protein_df_processing_functions = None,
      edge_construction_functions = Some [],
      node_metadata_functions = None,
      graph_metadata_functions = None,
      edge_metadata_functions = None\<rparr>"

definition offline_env :: env where
  "offline_env =
     \<lparr>read_pdb = (\<lambda>p. Inl ''no such file''),
      fetch_pdb = (\<lambda>c. Inl ''no such entry''),
      three_to_one_with_mods = (\<lambda>r. Inl r),
      get_protein_name_from_filename = (\<lambda>p. p),
      compute_rgroup_dataframe = (\<lambda>df. df),
      compute_distmat = (\<lambda>df. []),
      default_config = plain_config,
      write_gpickle = (\<lambda>g p. None)\<rparr>"


subsection \<open>The residue name table\<close>


subsection \<open>Stating the per-chain sequences\<close>







subsection \<open>The chain graph: \<^verbatim>\<open>compute_chain_graph\<close>\<close>












text \<open>
  \<^verbatim>\<open>
  if remove_self_loops:
      edges_to_remove = [(u, v) for u, v in h.edges() if u == v]
      h.remove_edges_from(edges_to_remove)
  \<close>
  The list names a self-loop once for each of its parallel copies, and each removal takes
  one copy away: no self-loop is left.
\<close>

definition remove_self_loop_edges :: "'m nxgraph \<Rightarrow> 'm nxgraph" where
  "remove_self_loop_edges h = h\<lparr>edges := filter (\<lambda>(u, v, d). u \<noteq> v) (edges h)\<rparr>"


subsection \<open>The segment graph: \<^verbatim>\<open>compute_secondary_structure_graph\<close>\<close>

definition ss_message :: string where
  "ss_message = ''Secondary structure not defined for all nodes.''"

text \<open>
  \<^verbatim>\<open>
  ss_list = []
  for _, d in g.nodes(data=True):
      if "ss" not in d.keys():
          raise ProteinGraphConfigurationError("Secondary structure not defined for all nodes.")
      ss_list.append(d["ss"])
  \<close>
\<close>

fun collect_ss :: "(node \<times> nattrs) list \<Rightarrow> error + nodeval list" where
  "collect_ss [] = Inr []"
| "collect_ss ((n, d) # ns) =
     (case d ''ss'' of
        None \<Rightarrow> Inl (ProteinGraphConfigurationError ss_message)
      | Some v \<Rightarrow> (case collect_ss ns of Inl e \<Rightarrow> Inl e | Inr vs \<Rightarrow> Inr (v # vs)))"

text \<open>The structural-state label of a node is a string, the one-letter code of the
  assignment; a label of another type is outside the model and reported as a type
  error.\<close>

fun ss_labels :: "nodeval list \<Rightarrow> error + string list" where
  "ss_labels [] = Inr []"
| "ss_labels (NStr s # vs) = (case ss_labels vs of Inl e \<Rightarrow> Inl e | Inr ls \<Rightarrow> Inr (s # ls))"
| "ss_labels (v # vs) = Inl TypeError"

text \<open>
  \<^verbatim>\<open>
  ss_list = pd.Series(number_groups_of_runs(ss_list))
  ss_list.index = list(g.nodes())
  if remove_non_ss:
      ss_list = ss_list[~ss_list.str.contains("-")]
  if allowable_ss_elements:
      ss_list = ss_list[ss_list.str.contains("|".join(allowable_ss_elements))]
  \<close>
  The series is the list of pairs of node and segment id.  \<^verbatim>\<open>str.contains\<close> searches each
  segment id for a regular expression; the pattern \<^verbatim>\<open>-\<close> matches when the hyphen occurs.
  The search for the joined pattern is the regular-expression engine's, a collaborator
  given as a parameter, which may reject the pattern.
\<close>

type_synonym regex_search = "string \<Rightarrow> string \<Rightarrow> string + bool"

fun keep_matching :: "regex_search \<Rightarrow> string \<Rightarrow> (node \<times> string) list \<Rightarrow> error + (node \<times> string) list" where
  "keep_matching search pat [] = Inr []"
| "keep_matching search pat ((n, s) # xs) =
     (case search pat s of
        Inl msg \<Rightarrow> Inl (CollaboratorError msg)
      | Inr b \<Rightarrow>
          (case keep_matching search pat xs of
             Inl e \<Rightarrow> Inl e
           | Inr rest \<Rightarrow> Inr (if b then (n, s) # rest else rest)))"

fun join_with :: "string \<Rightarrow> string list \<Rightarrow> string" where
  "join_with sep [] = []"
| "join_with sep [x] = x"
| "join_with sep (x # y # ys) = x @ sep @ join_with sep (y # ys)"

text \<open>
  \<^verbatim>\<open>
  constituent_residues = ss_list.index.groupby(ss_list.values)
  residue_counts = ss_list.groupby(ss_list).count().to_dict()
  h = nx.MultiGraph()
  h.add_nodes_from(ss_list)
  nx.set_node_attributes(h, residue_counts, "residue_counts")
  nx.set_node_attributes(h, constituent_residues, "constituent_residues")
  for n, d in h.nodes(data=True):
      d["ss"] = n[0]
  \<close>
  A segment id is a label followed by a numeral, so it has a first character.
\<close>

definition segment_node :: "(node \<times> string) list \<Rightarrow> string \<Rightarrow> node \<times> nattrs" where
  "segment_node ss_list seg =
     (let members = map fst (filter (\<lambda>(n, s). s = seg) ss_list)
      in (seg, [''residue_counts'' \<mapsto> NInt (int (length members)),
                ''constituent_residues'' \<mapsto> NList members,
                ''ss'' \<mapsto> NStr (take 1 seg)]))"

text \<open>
  \<^verbatim>\<open>
  for u, v, d in g.edges(data=True):
      try:
          h.add_edge(ss_list[u], ss_list[v], kind=d["kind"], source=f"{u}_{v}")
      except KeyError as e:
          log.debug(...)
  \<close>
\<close>

fun segment_edges :: "(node \<times> string) list \<Rightarrow> pgraph \<Rightarrow> edge list \<Rightarrow> pgraph" where
  "segment_edges ss_list h [] = h"
| "segment_edges ss_list h ((u, v, d) # es) =
     (case (map_of ss_list u, map_of ss_list v, d ''kind'') of
        (Some su, Some sv, Some knd) \<Rightarrow>
          segment_edges ss_list
            (multigraph_add_edge h su sv [''kind'' \<mapsto> knd, ''source'' \<mapsto> PyStr (u @ ''_'' @ v)]) es
      | _ \<Rightarrow> segment_edges ss_list h es)"

definition compute_secondary_structure_graph ::
  "regex_search \<Rightarrow> pgraph \<Rightarrow> string list option \<Rightarrow> bool \<Rightarrow> bool \<Rightarrow> bool \<Rightarrow> error + pgraph" where
  "compute_secondary_structure_graph search g allowable_ss_elements remove_non_ss
       remove_self_loops return_weighted_graph =
     (case collect_ss (nodes g) of
        Inl e \<Rightarrow> Inl e
      | Inr vs \<Rightarrow>
     (case ss_labels vs of
        Inl e \<Rightarrow> Inl e
      | Inr labels \<Rightarrow>
     (let ss_list = zip (map fst (nodes g)) (number_groups_of_runs labels);
          ss_list = (if remove_non_ss then filter (\<lambda>(n, s). CHR ''-'' \<notin> set s) ss_list else ss_list)
      in case (case allowable_ss_elements of
                 None \<Rightarrow> Inr ss_list
               | Some els \<Rightarrow>
                   if els = [] then Inr ss_list
                   else keep_matching search (join_with ''|'' els) ss_list) of
        Inl e \<Rightarrow> Inl e
      | Inr ss_list \<Rightarrow>
          (let ns = map (segment_node ss_list) (unique (map snd ss_list));
               m = (graph g)\<lparr>node_type := ''secondary_structure''\<rparr>;
               h = segment_edges ss_list \<lparr>graph = m, nodes = ns, edges = []\<rparr> (edges g);
               h = (if remove_self_loops then remove_self_loop_edges h else h)
           in if return_weighted_graph then compute_weighted_graph_from_multigraph h
              else Inr h))))"

subsection \<open>Example graphs and notions for the derived graphs\<close>

text \<open>A structure of two chains with one residue each and one contact between them; the
  nodes carry the chain, the residue name and, for the segment graph, a label.\<close>

definition example_meta :: gmeta where
  "example_meta =
     \<lparr>name = Some ''1abc'', pdb_code = Some ''1abc'', pdb_path = None,
      chain_ids = [''A'', ''B''], pdb_df = [], raw_pdb_df = [], rgroup_df = [], coords = [],
      node_type = ''CA'', sequences = [(''A'', ''G''), (''B'', ''A'')], config = None,
      dist_mat = None, atomic_dist_mat = None\<rparr>"

definition example_graph :: pgraph where
  "example_graph =
     \<lparr>graph = example_meta,
      nodes = [(''A:GLY:1'', [''chain_id'' \<mapsto> NStr ''A'', ''residue_name'' \<mapsto> NStr ''GLY'',
                              ''ss'' \<mapsto> NStr ''H'']),
               (''B:ALA:1'', [''chain_id'' \<mapsto> NStr ''B'', ''residue_name'' \<mapsto> NStr ''ALA''])],
      edges = [(''A:GLY:1'', ''B:ALA:1'', [''kind'' \<mapsto> PySet [''hbond'']])]\<rparr>"

definition labelled_graph :: pgraph where
  "labelled_graph =
     example_graph\<lparr>nodes :=
       [(''A:GLY:1'', [''chain_id'' \<mapsto> NStr ''A'', ''residue_name'' \<mapsto> NStr ''GLY'',
                       ''ss'' \<mapsto> NStr ''H'']),
        (''B:ALA:1'', [''chain_id'' \<mapsto> NStr ''B'', ''residue_name'' \<mapsto> NStr ''ALA'',
                       ''ss'' \<mapsto> NStr ''E''])]\<rparr>"


definition literal_search :: regex_search where
  "literal_search pat s = Inr (\<exists>c \<in> set pat. c \<noteq> CHR ''|'' \<and> c \<in> set s)"


definition node_names :: "error + pgraph \<Rightarrow> error + string list" where
  "node_names r = (case r of Inl e \<Rightarrow> Inl e | Inr h \<Rightarrow> Inr (map fst (nodes h)))"


definition is_config_error :: "error \<Rightarrow> bool" where
  "is_config_error e = (case e of ProteinGraphConfigurationError m \<Rightarrow> True | _ \<Rightarrow> False)"

section \<open>Properties\<close>

subsection \<open>Run-length numbering\<close>

lemma map2_shift_run_starts:
  "map2 (\<lambda>p v. p \<noteq> Some v) (p # map Some (butlast xs)) xs = run_starts p xs"
proof (induction xs arbitrary: p)
  case Nil
  show ?case by simp
next
  case (Cons x xs)
  show ?case
  proof (cases xs)
    case Nil
    then show ?thesis by simp
  next
    case (Cons y ys)
    with Cons.IH [of "Some x"] show ?thesis by simp
  qed
qed

lemma ne_shift_run_starts: "ne_shift xs = run_starts None xs"
  using map2_shift_run_starts [of None xs]
  by (cases xs) (simp_all add: ne_shift_def shift_def)

lemma length_run_starts [simp]: "length (run_starts p xs) = length xs"
  by (induction xs arbitrary: p) simp_all

lemma take_run_starts: "take k (run_starts p xs) = run_starts p (take k xs)"
proof (induction xs arbitrary: k p)
  case Nil
  show ?case by simp
next
  case (Cons x xs)
  then show ?case by (cases k) simp_all
qed

lemma run_starts_snoc:
  "run_starts p (ps @ [x]) =
     run_starts p ps @ [(if ps = [] then p else Some (last ps)) \<noteq> Some x]"
  by (induction ps arbitrary: p) simp_all

lemma length_ne_shift [simp]: "length (ne_shift xs) = length xs"
  by (simp add: ne_shift_run_starts)

lemma take_ne_shift: "take k (ne_shift xs) = ne_shift (take k xs)"
  by (simp add: ne_shift_run_starts take_run_starts)

lemma ne_shift_snoc: "ne_shift (ps @ [x]) = ne_shift ps @ [last_opt ps \<noteq> Some x]"
  by (simp add: ne_shift_run_starts run_starts_snoc last_opt_def)

lemma runs_count_snoc:
  "runs_count (ps @ [x]) =
     (if last_opt ps = Some x then runs_count ps
      else (runs_count ps)(x := runs_count ps x + 1))"
  by (rule ext) (simp add: runs_count_def ne_shift_snoc)

lemma length_number_groups_of_runs [simp]:
  "length (number_groups_of_runs xs) = length xs"
  by (simp add: number_groups_of_runs_def groupby_cumsum_def)

lemma number_groups_of_runs_nth:
  assumes "i < length xs"
  shows "number_groups_of_runs xs ! i = xs ! i @ str_of_nat (runs_count (take (Suc i) xs) (xs ! i))"
  using assms
  by (simp add: number_groups_of_runs_def groupby_cumsum_def runs_count_def
      take_zip take_ne_shift)

lemma drop_number_groups_of_runs:
  "drop (length ps) (number_groups_of_runs (ps @ xs)) =
     segment_walk (runs_count ps) (last_opt ps) xs"
proof (induction xs arbitrary: ps)
  case Nil
  show ?case by simp
next
  case (Cons x xs)
  let ?ys = "ps @ x # xs"
  have len: "length ps < length (number_groups_of_runs ?ys)" by simp
  have hd: "number_groups_of_runs ?ys ! length ps
      = x @ str_of_nat (runs_count (ps @ [x]) x)"
    using number_groups_of_runs_nth [of "length ps" ?ys] by simp
  have tl: "drop (Suc (length ps)) (number_groups_of_runs ?ys)
      = segment_walk (runs_count (ps @ [x])) (Some x) xs"
    using Cons.IH [of "ps @ [x]"] by (simp add: last_opt_def)
  have "drop (length ps) (number_groups_of_runs ?ys)
      = number_groups_of_runs ?ys ! length ps # drop (Suc (length ps)) (number_groups_of_runs ?ys)"
    using len by (simp add: Cons_nth_drop_Suc)
  also have "\<dots> = segment_walk (runs_count ps) (last_opt ps) (x # xs)"
    by (simp add: hd tl runs_count_snoc Let_def)
  finally show ?case .
qed

lemma runs_count_Nil: "runs_count [] = (\<lambda>_. 0)"
  by (rule ext) (simp add: runs_count_def)

text \<open>
  \<^bold>\<open>C2.\<close>  For every list of labels, \<^verbatim>\<open>number_groups_of_runs\<close> returns what the walk of the
  specification returns: each element's label followed by that label's occurrence
  counter, which starts at one and goes up exactly when the label differs from the label
  of the preceding element.  On \<^verbatim>\<open>A,A,B,A,A,A,B,B\<close> the result is
  \<^verbatim>\<open>A1,A1,B1,A2,A2,A2,B2,B2\<close>.
\<close>

theorem number_groups_of_runs_segment_walk:
  "number_groups_of_runs xs = segment_walk (\<lambda>_. 0) None xs
   \<and> number_groups_of_runs [''A'', ''A'', ''B'', ''A'', ''A'', ''A'', ''B'', ''B'']
       = [''A1'', ''A1'', ''B1'', ''A2'', ''A2'', ''A2'', ''B2'', ''B2'']"
proof
  show "number_groups_of_runs xs = segment_walk (\<lambda>_. 0) None xs"
    using drop_number_groups_of_runs [of "[]" xs]
    by (simp add: runs_count_Nil last_opt_def)
  show "number_groups_of_runs [''A'', ''A'', ''B'', ''A'', ''A'', ''A'', ''B'', ''B'']
       = [''A1'', ''A1'', ''B1'', ''A2'', ''A2'', ''A2'', ''B2'', ''B2'']"
    by code_simp
qed

subsection \<open>Collapsing a multigraph\<close>

lemma same_pair_eq: "same_pair u v a b \<Longrightarrow> same_pair u v = same_pair a b"
  by (auto simp: same_pair_def fun_eq_iff)

lemma joins_eq: "joins u v e \<Longrightarrow> joins u v = joins (fst e) (fst (snd e))"
  by (auto simp: joins_def fun_eq_iff dest: same_pair_eq)

lemma same_pair_refl [simp]: "same_pair a b a b"
  by (simp add: same_pair_def)

lemma joins_self [simp]: "joins u v (u, v, d)"
  by (simp add: joins_def same_pair_def)




lemma set_set_update [simp]: "set (set_update s ks) = set s \<union> set ks"
  unfolding set_update_def by (induction ks arbitrary: s) auto











lemma add_nodes_from_distinct:
  "distinct (map fst (acc @ new)) \<Longrightarrow> add_nodes_from acc new = acc @ new"
proof (induction new arbitrary: acc)
  case Nil
  show ?case by (simp add: add_nodes_from_def)
next
  case (Cons x new)
  obtain n d where x: "x = (n, d)" by (cases x)
  from Cons.prems have "n \<notin> fst ` set acc" by (auto simp: x)
  then have "map_of acc n = None" by (simp add: map_of_eq_None_iff)
  then have "add_node acc n d = acc @ [(n, d)]" by (simp add: add_node_def)
  moreover have "add_nodes_from (acc @ [(n, d)]) new = (acc @ [(n, d)]) @ new"
    using Cons.prems by (intro Cons.IH) (simp add: x)
  ultimately show ?case by (simp add: add_nodes_from_def x)
qed

lemma add_node_present:
  assumes "n \<in> set (map fst ns)"
  shows "add_node ns n Map.empty = ns"
proof -
  from assms obtain old where "map_of ns n = Some old"
    by (metis map_of_eq_None_iff not_Some_eq set_map)
  moreover have "map (\<lambda>(m, a). if m = n then (m, a ++ Map.empty) else (m, a)) ns = ns"
    by (rule map_idI) auto
  ultimately show ?thesis
    by (simp only: add_node_def option.case)
qed

lemma weighted_step_frame:
  assumes "weighted_step H e = Inr H'"
    and "fst e \<in> set (map fst (nodes H))" "fst (snd e) \<in> set (map fst (nodes H))"
  shows "nodes H' = nodes H \<and> graph H' = graph H"
  using assms
  by (cases e)
    (auto simp: weighted_step_def graph_add_edge_def add_node_present
      split: option.splits sum.splits)

lemma weighted_loop_frame:
  assumes "weighted_loop H es = Inr H'"
    and "list_all (\<lambda>e. fst e \<in> set (map fst (nodes H)) \<and> fst (snd e) \<in> set (map fst (nodes H))) es"
  shows "nodes H' = nodes H \<and> graph H' = graph H"
  using assms
proof (induction es arbitrary: H)
  case Nil
  then show ?case by simp
next
  case (Cons e es)
  from Cons.prems(1) obtain H1 where H1: "weighted_step H e = Inr H1" "weighted_loop H1 es = Inr H'"
    by (auto split: sum.splits)
  from H1(1) Cons.prems(2) have f: "nodes H1 = nodes H \<and> graph H1 = graph H"
    by (intro weighted_step_frame) auto
  with Cons.IH [OF H1(2)] Cons.prems(2) show ?case by simp
qed



lemma collapse_frame:
  assumes "compute_weighted_graph_from_multigraph g = Inr H" and "well_formed g"
  shows "nodes H = nodes g \<and> graph H = graph g"
proof -
  let ?H0 = "\<lparr>graph = graph g, nodes = add_nodes_from [] (nodes g), edges = []\<rparr>"
  have n0: "nodes ?H0 = nodes g"
    using assms(2) add_nodes_from_distinct [of "[]" "nodes g"] by (simp add: well_formed_def)
  have "weighted_loop ?H0 (edges g) = Inr H"
    using assms(1) by (simp add: compute_weighted_graph_from_multigraph_def)
  moreover have "list_all (\<lambda>e. fst e \<in> set (map fst (nodes ?H0)) \<and> fst (snd e) \<in> set (map fst (nodes ?H0))) (edges g)"
    using assms(2) unfolding n0 by (simp add: well_formed_def)
  ultimately have "nodes H = nodes ?H0 \<and> graph H = graph ?H0"
    by (rule weighted_loop_frame)
  with n0 show ?thesis by simp
qed

text \<open>
  \<^bold>\<open>C10.\<close>  Whenever the collapse of a well-formed multigraph returns a graph, that graph
  has the node dictionary of the multigraph, node for node with the same attributes and
  in the same order, and the same graph-level metadata.
\<close>

theorem weighted_collapse_frame:
  assumes "compute_weighted_graph_from_multigraph g = Inr H" and "well_formed g"
  shows "nodes H = nodes g \<and> graph H = graph g"
  using assms by (rule collapse_frame)

lemmas collapse_eval =
  compute_weighted_graph_from_multigraph_def weighted_step_def edge_lookup_def joins_def
  same_pair_def new_edge_def merge_edge_def graph_add_edge_def add_node_def add_nodes_from_def
  edge_update_def set_update_def edge_data_def

lemma example_collapse_eval:
  "compute_weighted_graph_from_multigraph example_multigraph = Inr example_collapsed"
  by (simp add: example_multigraph_def example_collapsed_def collapse_eval)
    (auto simp: fun_eq_iff)




theorem weighted_collapse_frame_witness:
  "compute_weighted_graph_from_multigraph example_multigraph = Inr example_collapsed
   \<and> well_formed example_multigraph
   \<and> nodes example_collapsed = nodes example_multigraph
   \<and> graph example_collapsed = graph example_multigraph"
proof -
  have wf: "well_formed example_multigraph"
    by (simp add: well_formed_def example_multigraph_def)
  from weighted_collapse_frame [OF example_collapse_eval wf] example_collapse_eval wf
  show ?thesis by simp
qed

subsection \<open>Centroid conversion\<close>










subsection \<open>Single-item construction and the source assertion\<close>











subsection \<open>Batch construction\<close>

lemma task_list_replicate:
  "task_list pdbs (replicate (length pdbs) s) = Inr (map (\<lambda>pdb. (pdb, s)) pdbs)"
  by (induction pdbs) simp_all

lemma construct_graphs_mp_default_selections:
  assumes "pdb_code_it \<noteq> None \<or> pdb_path_it \<noteq> None"
  shows "construct_graphs_mp ev pdb_code_it pdb_path_it None c n rd out =
     (let pdbs = (case pdb_path_it of Some paths \<Rightarrow> paths | None \<Rightarrow> the pdb_code_it);
          graphs = map (\<lambda>pdb. mp_graph_constructor ev (pdb, ''all'') (pdb_path_it = None) c) pdbs
      in case (case out of None \<Rightarrow> Inr [] | Some p \<Rightarrow> write_graphs ev p graphs) of
           Inl e \<Rightarrow> Inl e
         | Inr written \<Rightarrow>
             Inr (if rd then GraphDict (fold (\<lambda>(pdb, g) acc. AList.update pdb g acc) (zip pdbs graphs) [])
                  else GraphList graphs))"
  using assms
  by (cases pdb_code_it; cases pdb_path_it)
    (simp_all add: construct_graphs_mp_def Let_def task_list_replicate o_def
      cong: sum.case_cong option.case_cong)

text \<open>
  Without an output directory and with list output, a batch of \<open>N\<close> inputs returns
  \<open>N\<close> results in input order, each the graph of its input or \<^verbatim>\<open>None\<close> when
  its construction failed; the call itself does not fail.
\<close>

lemma batch_without_output_directory:
  assumes "pdb_code_it \<noteq> None \<or> pdb_path_it \<noteq> None"
  shows "construct_graphs_mp ev pdb_code_it pdb_path_it None c n False None
     = Inr (GraphList (map (\<lambda>pdb. mp_graph_constructor ev (pdb, ''all'') (pdb_path_it = None) c)
              (case pdb_path_it of Some paths \<Rightarrow> paths | None \<Rightarrow> the pdb_code_it)))"
  by (simp add: construct_graphs_mp_default_selections [OF assms] Let_def)

lemma write_graphs_failed_item:
  assumes "None \<in> set gs"
  shows "\<exists>e. write_graphs ev p gs = Inl e"
  using assms
proof (induction gs)
  case Nil
  then show ?case by simp
next
  case (Cons g gs)
  show ?case
  proof (cases g)
    case None
    then show ?thesis by simp
  next
    case (Some h)
    with Cons obtain e where "write_graphs ev p gs = Inl e" by auto
    with Some show ?thesis by (simp split: option.splits)
  qed
qed

text \<open>With an output directory, one failed item makes the whole call fail.\<close>

lemma batch_with_output_directory_fails:
  assumes "pdb_code_it \<noteq> None \<or> pdb_path_it \<noteq> None"
    and "pdb \<in> set (case pdb_path_it of Some paths \<Rightarrow> paths | None \<Rightarrow> the pdb_code_it)"
    and "mp_graph_constructor ev (pdb, ''all'') (pdb_path_it = None) c = None"
  shows "\<exists>e. construct_graphs_mp ev pdb_code_it pdb_path_it None c n rd (Some p) = Inl e"
proof -
  let ?pdbs = "case pdb_path_it of Some paths \<Rightarrow> paths | None \<Rightarrow> the pdb_code_it"
  let ?gs = "map (\<lambda>pdb. mp_graph_constructor ev (pdb, ''all'') (pdb_path_it = None) c) ?pdbs"
  from assms(2,3) have "None \<in> set ?gs" by force
  from write_graphs_failed_item [OF this] obtain e where "write_graphs ev p ?gs = Inl e" by blast
  then show ?thesis
    by (simp add: construct_graphs_mp_default_selections [OF assms(1)] Let_def)
qed

lemmas batch_eval =
  construct_graphs_mp_def mp_graph_constructor_def construct_graph_def build_graph_def
  read_pdb_to_dataframe_def exactly_one_source_def truthy_def offline_env_def Let_def

text \<open>
  \<^bold>\<open>C3.\<close>  The code at the failing input: one accession whose construction fails.  Without
  an output directory the batch returns the one-element sequence holding \<^verbatim>\<open>None\<close>; with
  an output directory the same batch raises an attribute error out of the batch call,
  because the loop that writes the results reads \<^verbatim>\<open>g.graph\<close> of the \<^verbatim>\<open>None\<close> result.
\<close>

theorem batch_failure_with_output_directory:
  "construct_graphs_mp offline_env (Some [''zzzz'']) None None plain_config 16 False None
     = Inr (GraphList [None])
   \<and> construct_graphs_mp offline_env (Some [''zzzz'']) None None plain_config 16 False (Some ''out'')
     = Inl AttributeError"
  by (simp add: batch_eval)


subsection \<open>Per-chain sequences\<close>

lemma unique_set [simp]: "set (unique xs) = set xs"
  by (induction xs) auto

lemma unique_distinct [simp]: "distinct (unique xs)"
  by (induction xs) (auto simp: distinct_filter)






















subsection \<open>The chain graph\<close>
















subsection \<open>The segment graph\<close>

lemma collect_ss_config_error:
  "(\<exists>e. collect_ss ns = Inl e) = list_ex (\<lambda>(n, d). d ''ss'' = None) ns"
  by (induction ns) (auto split: option.splits sum.splits)

lemma collect_ss_error:
  "collect_ss ns = Inl e \<Longrightarrow> e = ProteinGraphConfigurationError ss_message"
  by (induction ns) (auto split: option.splits sum.splits)

lemma ss_labels_error: "ss_labels vs = Inl e \<Longrightarrow> \<not> is_config_error e"
  by (induction vs rule: ss_labels.induct) (auto simp: is_config_error_def split: sum.splits)

lemma keep_matching_error: "keep_matching search pat xs = Inl e \<Longrightarrow> \<not> is_config_error e"
  by (induction xs) (auto simp: is_config_error_def split: sum.splits)

lemma py_len_error: "py_len v = Inl e \<Longrightarrow> \<not> is_config_error e"
  by (cases v) (simp_all add: is_config_error_def)

lemma py_list_error: "py_list v = Inl e \<Longrightarrow> \<not> is_config_error e"
  by (cases v) (simp_all add: is_config_error_def)

lemma bump_kinds_error: "bump_kinds ks a = Inl e \<Longrightarrow> \<not> is_config_error e"
  by (induction ks arbitrary: a)
    (auto simp: is_config_error_def split: option.splits pyval.splits)

lemma merge_edge_error:
  assumes "merge_edge a d = Inl e"
  shows "\<not> is_config_error e"
proof (cases "a ''weight''")
  case None
  with assms show ?thesis by (auto simp: merge_edge_def is_config_error_def)
next
  case w: (Some w)
  show ?thesis
  proof (cases "d ''kind''")
    case None
    with assms w show ?thesis by (auto simp: merge_edge_def is_config_error_def)
  next
    case knd: (Some knd)
    show ?thesis
    proof (cases "py_len knd")
      case (Inl x)
      with assms w knd have "e = x" by (simp add: merge_edge_def)
      with Inl py_len_error show ?thesis by blast
    next
      case n: (Inr n)
      show ?thesis
      proof (cases w)
        case (PyInt i)
        from assms w knd n PyInt show ?thesis
          by (auto simp: merge_edge_def Let_def is_config_error_def
              split: option.splits pyval.splits sum.splits if_splits
              dest: py_list_error bump_kinds_error)
      qed (use assms w knd n in \<open>auto simp: merge_edge_def is_config_error_def\<close>)
    qed
  qed
qed

lemma new_edge_error: "new_edge d = Inl e \<Longrightarrow> \<not> is_config_error e"
  by (auto simp: new_edge_def is_config_error_def split: option.splits sum.splits
      dest: py_len_error py_list_error)

lemma weighted_step_error: "weighted_step H x = Inl e \<Longrightarrow> \<not> is_config_error e"
  by (cases x)
    (auto simp: weighted_step_def split: option.splits sum.splits
      dest: merge_edge_error new_edge_error)

lemma weighted_loop_error: "weighted_loop H es = Inl e \<Longrightarrow> \<not> is_config_error e"
  by (induction es arbitrary: H) (auto split: sum.splits dest: weighted_step_error)

lemma collapse_error:
  "compute_weighted_graph_from_multigraph h = Inl e \<Longrightarrow> \<not> is_config_error e"
  by (auto simp: compute_weighted_graph_from_multigraph_def Let_def dest: weighted_loop_error)

text \<open>
  \<^bold>\<open>C8.\<close>  The segment graph derivation fails with a configuration error if and only if
  some node of the source graph has no \<^verbatim>\<open>ss\<close> attribute; the error then is the one with
  the message of the check.  When every node carries the label, no configuration error
  is raised.
\<close>

theorem segment_graph_requires_labels:
  "(\<exists>m. compute_secondary_structure_graph search g allow rns rsl rw
          = Inl (ProteinGraphConfigurationError m))
     = list_ex (\<lambda>(n, d). d ''ss'' = None) (nodes g)
   \<and> (list_ex (\<lambda>(n, d). d ''ss'' = None) (nodes g)
        = (compute_secondary_structure_graph search g allow rns rsl rw
            = Inl (ProteinGraphConfigurationError ss_message)))"
proof (cases "collect_ss (nodes g)")
  case (Inl e)
  then have ex: "list_ex (\<lambda>(n, d). d ''ss'' = None) (nodes g)"
    using collect_ss_config_error [of "nodes g"] by auto
  from Inl have "compute_secondary_structure_graph search g allow rns rsl rw
      = Inl (ProteinGraphConfigurationError ss_message)"
    using collect_ss_error [OF Inl] by (simp add: compute_secondary_structure_graph_def)
  with ex show ?thesis by simp
next
  case (Inr vs)
  then have nex: "\<not> list_ex (\<lambda>(n, d). d ''ss'' = None) (nodes g)"
    using collect_ss_config_error [of "nodes g"] by auto
  have "compute_secondary_structure_graph search g allow rns rsl rw
      \<noteq> Inl (ProteinGraphConfigurationError m)" for m
  proof
    assume a: "compute_secondary_structure_graph search g allow rns rsl rw
      = Inl (ProteinGraphConfigurationError m)"
    have "\<not> is_config_error (ProteinGraphConfigurationError m)"
      using a Inr unfolding compute_secondary_structure_graph_def Let_def
      by (auto split: sum.splits option.splits if_splits
          dest: ss_labels_error keep_matching_error collapse_error)
    then show False by (simp add: is_config_error_def)
  qed
  with nex show ?thesis by simp
qed

lemmas segment_graph_eval =
  compute_secondary_structure_graph_def example_graph_def labelled_graph_def

theorem segment_graph_requires_labels_witness:
  "list_ex (\<lambda>(n, d). d ''ss'' = None) (nodes example_graph)
   \<and> compute_secondary_structure_graph literal_search example_graph None True False False
       = Inl (ProteinGraphConfigurationError ss_message)
   \<and> \<not> list_ex (\<lambda>(n, d). d ''ss'' = None) (nodes labelled_graph)
   \<and> node_names (compute_secondary_structure_graph literal_search labelled_graph None True False False)
       = Inr [''H1'', ''E1'']"
proof -
  have a: "list_ex (\<lambda>(n, d). d ''ss'' = None) (nodes example_graph)"
    by (simp add: example_graph_def)
  have b: "\<not> list_ex (\<lambda>(n, d). d ''ss'' = None) (nodes labelled_graph)"
    by (simp add: labelled_graph_def example_graph_def)
  from a segment_graph_requires_labels [of literal_search example_graph None True False False]
  have c: "compute_secondary_structure_graph literal_search example_graph None True False False
       = Inl (ProteinGraphConfigurationError ss_message)"
    by simp
  have ngr: "number_groups_of_runs [''H'', ''E''] = [''H1'', ''E1'']"
    by code_simp
  have d: "node_names (compute_secondary_structure_graph literal_search labelled_graph None True False False)
       = Inr [''H1'', ''E1'']"
    by (simp add: node_names_def segment_graph_eval ngr segment_node_def Let_def
        multigraph_add_edge_def add_node_def)
  from a b c d show ?thesis by simp
qed

end
